theory Spec2Isabelle
  imports Complex_Main
begin

section \<open>Numbers and optional values\<close>

text \<open>
  The program is TypeScript. A \<^verbatim>\<open>number\<close> is modelled as a \<^typ>\<open>real\<close>: the
  arithmetic of the calculators is read exactly, and the rounding of the IEEE doubles
  underneath, \<^verbatim>\<open>NaN\<close> and the infinities are outside the model. The one infinity the
  code writes down, the upper end of the last tax bracket, is \<^term>\<open>None\<close> in an
  optional bound. A field declared with \<^verbatim>\<open>?\<close> is an \<^typ>\<open>'a option\<close>.
\<close>

definition orElse :: "real option \<Rightarrow> real \<Rightarrow> real" where
  \<comment> \<open>\<^verbatim>\<open>x || d\<close> on an optional number: \<^verbatim>\<open>undefined\<close> and \<^verbatim>\<open>0\<close> are falsy.\<close>
  "orElse x d = (case x of None \<Rightarrow> d | Some v \<Rightarrow> if v = 0 then d else v)"

definition truthy :: "real option \<Rightarrow> bool" where
  \<comment> \<open>an optional number used as a condition\<close>
  "truthy x = (case x of None \<Rightarrow> False | Some v \<Rightarrow> v \<noteq> 0)"

section \<open>Constants (constants/israeli-tax)\<close>

record TaxBracket =
  bracket_min :: real
  bracket_max :: "real option"
  bracket_rate :: real

definition ISRAELI_TAX_BRACKETS_2024_brackets :: "TaxBracket list" where
  "ISRAELI_TAX_BRACKETS_2024_brackets =
     [\<lparr>bracket_min = 0, bracket_max = Some 7010, bracket_rate = 10 / 100\<rparr>,
      \<lparr>bracket_min = 7010, bracket_max = Some 10060, bracket_rate = 14 / 100\<rparr>,
      \<lparr>bracket_min = 10060, bracket_max = Some 16150, bracket_rate = 20 / 100\<rparr>,
      \<lparr>bracket_min = 16150, bracket_max = Some 21240, bracket_rate = 31 / 100\<rparr>,
      \<lparr>bracket_min = 21240, bracket_max = Some 42480, bracket_rate = 35 / 100\<rparr>,
      \<lparr>bracket_min = 42480, bracket_max = Some 54130, bracket_rate = 47 / 100\<rparr>,
      \<lparr>bracket_min = 54130, bracket_max = None, bracket_rate = 50 / 100\<rparr>]"

definition BITUACH_LEUMI_2024_rate :: real where
  "BITUACH_LEUMI_2024_rate = 4 / 100"

definition BITUACH_LEUMI_2024_monthlyCeiling :: real where
  "BITUACH_LEUMI_2024_monthlyCeiling = 47220"

definition PENSION_RATES_2024_employee_rate :: real where
  "PENSION_RATES_2024_employee_rate = 6 / 100"

definition PENSION_RATES_2024_employer_rate :: real where
  "PENSION_RATES_2024_employer_rate = 6 / 100"

definition PENSION_RATES_2024_maxMonthlySalaryForPension :: real where
  "PENSION_RATES_2024_maxMonthlySalaryForPension = 42480"

definition STUDY_FUND_RATES_2024_employee_rate :: real where
  "STUDY_FUND_RATES_2024_employee_rate = 25 / 1000"

definition STUDY_FUND_RATES_2024_employer_rate :: real where
  "STUDY_FUND_RATES_2024_employer_rate = 75 / 1000"

definition STUDY_FUND_RATES_2024_maxMonthlySalaryForStudyFund :: real where
  "STUDY_FUND_RATES_2024_maxMonthlySalaryForStudyFund = 33500"

definition CAPITAL_GAINS_TAX_2024_rate :: real where
  "CAPITAL_GAINS_TAX_2024_rate = 25 / 100"

definition CAPITAL_GAINS_TAX_2024_exemptionThreshold :: real where
  "CAPITAL_GAINS_TAX_2024_exemptionThreshold = 680000"

definition TAX_POINTS_2024_singlePersonTaxPoints :: real where
  "TAX_POINTS_2024_singlePersonTaxPoints = 225 / 100"

definition TAX_POINTS_2024_taxPointValue :: real where
  "TAX_POINTS_2024_taxPointValue = 245"

section \<open>TaxCalculator\<close>

text \<open>
  The loop of \<^verbatim>\<open>calculateIncomeTax\<close> over the bracket table, with its two variables
  \<^verbatim>\<open>remainingIncome\<close> and \<^verbatim>\<open>totalTax\<close>; the \<^verbatim>\<open>break\<close> returns the tax so far.
\<close>

fun incomeTaxLoop :: "TaxBracket list \<Rightarrow> real \<Rightarrow> real \<Rightarrow> real" where
  "incomeTaxLoop [] remainingIncome totalTax = totalTax"
| "incomeTaxLoop (bracket # rest) remainingIncome totalTax =
     (if remainingIncome \<le> 0 then totalTax
      else
        let taxableInThisBracket =
              min remainingIncome
                (case bracket_max bracket of
                   None \<Rightarrow> remainingIncome
                 | Some m \<Rightarrow> m - bracket_min bracket)
        in incomeTaxLoop rest (remainingIncome - taxableInThisBracket)
             (totalTax + taxableInThisBracket * bracket_rate bracket))"

text \<open>
  \<^verbatim>\<open>taxPoints\<close> has the default \<^verbatim>\<open>TAX_POINTS_2024.singlePersonTaxPoints\<close> in the
  source; here the caller always passes it.
\<close>

definition calculateIncomeTax :: "real \<Rightarrow> real \<Rightarrow> real" where
  "calculateIncomeTax monthlySalary taxPoints =
     (let taxPointCredit = taxPoints * TAX_POINTS_2024_taxPointValue;
          taxableIncome = max 0 (monthlySalary - taxPointCredit)
      in max 0 (incomeTaxLoop ISRAELI_TAX_BRACKETS_2024_brackets taxableIncome 0))"

definition calculateBituachLeumi :: "real \<Rightarrow> real" where
  "calculateBituachLeumi monthlySalary =
     (let applicableSalary = min monthlySalary BITUACH_LEUMI_2024_monthlyCeiling
      in applicableSalary * BITUACH_LEUMI_2024_rate)"

record Contributions =
  employee :: real
  employer :: real
  total :: real

definition calculatePensionContributions :: "real \<Rightarrow> Contributions" where
  "calculatePensionContributions monthlySalary =
     (let applicableSalary = min monthlySalary PENSION_RATES_2024_maxMonthlySalaryForPension;
          employeeContribution = applicableSalary * PENSION_RATES_2024_employee_rate;
          employerContribution = applicableSalary * PENSION_RATES_2024_employer_rate
      in \<lparr>employee = employeeContribution, employer = employerContribution,
          total = employeeContribution + employerContribution\<rparr>)"

definition calculateStudyFundContributions :: "real \<Rightarrow> Contributions" where
  "calculateStudyFundContributions monthlySalary =
     (let applicableSalary = min monthlySalary STUDY_FUND_RATES_2024_maxMonthlySalaryForStudyFund;
          employeeContribution = applicableSalary * STUDY_FUND_RATES_2024_employee_rate;
          employerContribution = applicableSalary * STUDY_FUND_RATES_2024_employer_rate
      in \<lparr>employee = employeeContribution, employer = employerContribution,
          total = employeeContribution + employerContribution\<rparr>)"

definition calculateCapitalGains :: "real \<Rightarrow> real" where
  "calculateCapitalGains equityGains =
     (if equityGains \<le> 0 then 0
      else
        let taxableGains = max 0 (equityGains - CAPITAL_GAINS_TAX_2024_exemptionThreshold)
        in taxableGains * CAPITAL_GAINS_TAX_2024_rate)"

record NetSalary =
  grossSalary :: real
  netSalary :: real
  totalDeductions :: real

definition getNetSalary :: "real \<Rightarrow> real \<Rightarrow> NetSalary" where
  "getNetSalary grossMonthlySalary taxPoints =
     (let incomeTax = calculateIncomeTax grossMonthlySalary taxPoints;
          bituachLeumi = calculateBituachLeumi grossMonthlySalary;
          pensionContributions = calculatePensionContributions grossMonthlySalary;
          studyFundContributions = calculateStudyFundContributions grossMonthlySalary;
          totalDeductions' = incomeTax + bituachLeumi + employee pensionContributions
                             + employee studyFundContributions;
          netSalary' = grossMonthlySalary - totalDeductions'
      in \<lparr>grossSalary = grossMonthlySalary, netSalary = max 0 netSalary',
          totalDeductions = totalDeductions'\<rparr>)"

section \<open>CurrencyConverter\<close>

text \<open>
  The class keeps two static fields, the cached rate and its expiry (milliseconds since
  the epoch). They are the state that every operation takes and returns. A
  \<^verbatim>\<open>Date\<close> is kept as its \<^verbatim>\<open>getTime()\<close> value.

  What one call of \<^verbatim>\<open>getCurrentExchangeRate\<close> finds outside the program is a
  \<open>Network\<close> value: the two readings of \<^verbatim>\<open>Date.now()\<close> (at the validity test and
  inside \<^verbatim>\<open>cacheRate\<close>) and the outcome of each of the two private fetch functions,
  \<^term>\<open>Inl\<close> when it throws. The HTTP exchange inside the fetch functions is not
  modelled, and neither is the logging to the console.
\<close>

datatype error = Error string

record ExchangeRate =
  rate :: real
  lastUpdated :: int
  source :: string

definition FALLBACK_EXCHANGE_RATE_usdToIls :: real where
  "FALLBACK_EXCHANGE_RATE_usdToIls = 37 / 10"

definition FALLBACK_EXCHANGE_RATE_lastUpdated :: int where
  \<comment> \<open>\<^verbatim>\<open>new Date('2024-01-01')\<close>\<close>
  "FALLBACK_EXCHANGE_RATE_lastUpdated = 1704067200000"

definition FALLBACK_EXCHANGE_RATE_source :: string where
  "FALLBACK_EXCHANGE_RATE_source = ''fallback''"

record CurrencyConverter =
  cachedRate :: "ExchangeRate option"
  cacheExpiry :: int

definition CACHE_DURATION :: int where
  "CACHE_DURATION = 60 * 60 * 1000"

definition initialConverter :: CurrencyConverter where
  \<comment> \<open>the static initialisers; also the state after \<^verbatim>\<open>clearCache()\<close>\<close>
  "initialConverter = \<lparr>cachedRate = None, cacheExpiry = 0\<rparr>"

definition clearCache :: "CurrencyConverter \<Rightarrow> CurrencyConverter" where
  "clearCache this = this\<lparr>cachedRate := None, cacheExpiry := 0\<rparr>"

definition isCacheValid :: "int \<Rightarrow> CurrencyConverter \<Rightarrow> bool" where
  \<comment> \<open>the first argument is the reading of \<^verbatim>\<open>Date.now()\<close>\<close>
  "isCacheValid now this = (cachedRate this \<noteq> None \<and> now < cacheExpiry this)"

record Network =
  dateNow :: int
  fetchFromPrimaryAPI :: "error + ExchangeRate"
  fetchFromBankOfIsrael :: "error + ExchangeRate"
  dateNowInCacheRate :: int

definition cacheRate :: "Network \<Rightarrow> ExchangeRate \<Rightarrow> CurrencyConverter \<Rightarrow> CurrencyConverter" where
  "cacheRate net r this =
     this\<lparr>cachedRate := Some r, cacheExpiry := dateNowInCacheRate net + CACHE_DURATION\<rparr>"

text \<open>
  The \<^verbatim>\<open>try\<close> block of \<^verbatim>\<open>getCurrentExchangeRate\<close> with its two handlers. Every
  path ends in a \<^verbatim>\<open>return\<close>, so the result is a rate and the new state, not a sum.
\<close>

definition getCurrentExchangeRate_try :: "Network \<Rightarrow> CurrencyConverter \<Rightarrow> ExchangeRate \<times> CurrencyConverter" where
  "getCurrentExchangeRate_try net this =
     (case fetchFromPrimaryAPI net of
        Inr r \<Rightarrow> (r, cacheRate net r this)
      | Inl err \<Rightarrow>
          (case fetchFromBankOfIsrael net of
             Inr r \<Rightarrow> (r, cacheRate net r this)
           | Inl fallbackError \<Rightarrow>
               (case cachedRate this of
                  Some cached \<Rightarrow> (cached, this)
                | None \<Rightarrow>
                    (\<lparr>rate = FALLBACK_EXCHANGE_RATE_usdToIls,
                      lastUpdated = FALLBACK_EXCHANGE_RATE_lastUpdated,
                      source = FALLBACK_EXCHANGE_RATE_source\<rparr>, this))))"

definition getCurrentExchangeRate :: "Network \<Rightarrow> CurrencyConverter \<Rightarrow> ExchangeRate \<times> CurrencyConverter" where
  "getCurrentExchangeRate net this =
     (case cachedRate this of
        Some cached \<Rightarrow>
          if dateNow net < cacheExpiry this then (cached, this)
          else getCurrentExchangeRate_try net this
      | None \<Rightarrow> getCurrentExchangeRate_try net this)"

definition convertUSDToILS :: "Network \<Rightarrow> CurrencyConverter \<Rightarrow> real \<Rightarrow> real \<times> CurrencyConverter" where
  "convertUSDToILS net this usdAmount =
     (case getCurrentExchangeRate net this of (r, this') \<Rightarrow> (usdAmount * rate r, this'))"

text \<open>
  At a rate of 0 the division below is \<^verbatim>\<open>Infinity\<close> or \<^verbatim>\<open>NaN\<close> in JavaScript and
  0 in HOL; nothing is proved here about that case.
\<close>

definition convertILSToUSD :: "Network \<Rightarrow> CurrencyConverter \<Rightarrow> real \<Rightarrow> real \<times> CurrencyConverter" where
  "convertILSToUSD net this ilsAmount =
     (case getCurrentExchangeRate net this of (r, this') \<Rightarrow> (ilsAmount / rate r, this'))"

datatype Currency = USD | ILS

fun currencyName :: "Currency \<Rightarrow> string" where
  "currencyName USD = ''USD''"
| "currencyName ILS = ''ILS''"

definition convertCurrency ::
  "Network \<Rightarrow> CurrencyConverter \<Rightarrow> real \<Rightarrow> Currency \<Rightarrow> Currency \<Rightarrow> error + real \<times> CurrencyConverter" where
  "convertCurrency net this amt fromCurrency toCurrency =
     (if fromCurrency = toCurrency then Inr (amt, this)
      else if fromCurrency = USD \<and> toCurrency = ILS then Inr (convertUSDToILS net this amt)
      else if fromCurrency = ILS \<and> toCurrency = USD then Inr (convertILSToUSD net this amt)
      else Inl (Error (''Unsupported currency conversion: '' @ currencyName fromCurrency
                        @ '' to '' @ currencyName toCurrency)))"

section \<open>Equity grants\<close>

datatype GrantType = RSU | ISO | NQSO | ESPP

datatype CompanyStage = Startup | Growth | Public | PreIpo

fun stageName :: "CompanyStage \<Rightarrow> string" where
  "stageName Startup = ''startup''"
| "stageName Growth = ''growth''"
| "stageName Public = ''public''"
| "stageName PreIpo = ''pre-ipo''"

datatype ScheduleType = Standard | Cliff | Custom

datatype Frequency = Monthly | Quarterly | Annual

record VestingSchedule =
  schedule_type :: ScheduleType
  totalYears :: real
  cliffMonths :: "real option"
  frequency :: Frequency
  percentages :: "real list option"

text \<open>
  \<^verbatim>\<open>vestingSchedule\<close> is not optional in the declared type, but
  \<^verbatim>\<open>calculateVestingSchedule\<close> tests for its absence, so it is optional here.
\<close>

record EquityGrant =
  grant_id :: string
  grant_type :: GrantType
  amount :: real
  grantDate :: int
  vestingStart :: int
  vestingSchedule :: "VestingSchedule option"
  strikePrice :: "real option"
  currentStockPrice :: "real option"
  companyValuation :: "real option"
  companyStage :: "CompanyStage option"

record VestingEvent =
  date :: int
  sharesVested :: real
  cumulativeShares :: real
  estimatedValue :: real

record EquityValuation =
  currentValue :: real
  postTaxValue :: real
  riskAdjustedValue :: real
  valuation_vestingSchedule :: "VestingEvent list"
  assumptions :: "string list"

section \<open>EquityValuator\<close>

text \<open>
  Two built-ins of the JavaScript runtime are parameters: \<open>setMonthPlus d k\<close> is the
  time of a copy of the date \<open>d\<close> after \<^verbatim>\<open>setMonth(getMonth() + k)\<close> (calendar
  arithmetic in the local time zone), and \<open>numberToString\<close> is the text a number gets
  inside a template string.
\<close>

record JSRuntime =
  setMonthPlus :: "int \<Rightarrow> real \<Rightarrow> int"
  numberToString :: "real \<Rightarrow> string"

text \<open>
  The loop of the standard schedule, \<^verbatim>\<open>for (quarter = 0; quarter < totalYears * 4;
  quarter++)\<close>, from the value \<open>quarter\<close> on; \<open>events.push\<close> in loop order is the
  order of the list.
\<close>

definition standardEvent :: "JSRuntime \<Rightarrow> int \<Rightarrow> real \<Rightarrow> real \<Rightarrow> real \<Rightarrow> nat \<Rightarrow> VestingEvent" where
  \<comment> \<open>the body of the loop: the event pushed for \<open>quarter\<close>\<close>
  "standardEvent js startDate cliffMonths' quarterlyShares currentStockPrice' quarter =
     (let vestingDate = setMonthPlus js startDate (cliffMonths' + real quarter * 3);
          sharesThisVesting =
            (if quarter = 0 \<and> cliffMonths' > 0
             then quarterlyShares * (cliffMonths' / 3 + 1) else quarterlyShares)
      in \<lparr>date = vestingDate,
          sharesVested = sharesThisVesting,
          cumulativeShares = (real quarter + 1) * quarterlyShares,
          estimatedValue = sharesThisVesting * currentStockPrice'\<rparr>)"

function standardLoop ::
  "JSRuntime \<Rightarrow> int \<Rightarrow> real \<Rightarrow> real \<Rightarrow> real \<Rightarrow> real \<Rightarrow> nat \<Rightarrow> VestingEvent list" where
  "standardLoop js startDate cliffMonths' totalYears' quarterlyShares currentStockPrice' quarter =
     (if real quarter < totalYears' * 4 then
        standardEvent js startDate cliffMonths' quarterlyShares currentStockPrice' quarter
        # standardLoop js startDate cliffMonths' totalYears' quarterlyShares
            currentStockPrice' (Suc quarter)
      else [])"
  by pat_completeness auto
termination
proof (relation "measure (\<lambda>(js, startDate, c, ty, q, p, quarter). nat \<lceil>ty * 4\<rceil> - quarter)")
  show "wf (measure (\<lambda>(js :: JSRuntime, startDate :: int, c :: real, ty :: real, q :: real,
                        p :: real, quarter :: nat). nat \<lceil>ty * 4\<rceil> - quarter))"
    by simp
next
  fix js :: JSRuntime and startDate :: int and c ty q p :: real and quarter :: nat
  assume "real quarter < ty * 4"
  then have "int quarter < \<lceil>ty * 4\<rceil>" by linarith
  then show "((js, startDate, c, ty, q, p, Suc quarter), (js, startDate, c, ty, q, p, quarter))
       \<in> measure (\<lambda>(js, startDate, c, ty, q, p, quarter). nat \<lceil>ty * 4\<rceil> - quarter)"
    by simp
qed

declare standardLoop.simps [simp del]

text \<open>
  The \<^verbatim>\<open>forEach\<close> of the custom schedule, with its index and the running
  \<^verbatim>\<open>cumulativeShares\<close>.
\<close>

fun customLoop ::
  "JSRuntime \<Rightarrow> int \<Rightarrow> real \<Rightarrow> real \<Rightarrow> real \<Rightarrow> real list \<Rightarrow> nat \<Rightarrow> real \<Rightarrow> VestingEvent list" where
  "customLoop js startDate cliffMonths' amount' currentStockPrice' [] index cumulative = []"
| "customLoop js startDate cliffMonths' amount' currentStockPrice' (percentage # rest) index cumulative =
     (let vestingDate = setMonthPlus js startDate (cliffMonths' + real index * 12);
          sharesThisVesting = amount' * (percentage / 100);
          cumulative' = cumulative + sharesThisVesting
      in \<lparr>date = vestingDate,
          sharesVested = sharesThisVesting,
          cumulativeShares = cumulative',
          estimatedValue = sharesThisVesting * currentStockPrice'\<rparr>
         # customLoop js startDate cliffMonths' amount' currentStockPrice' rest (Suc index) cumulative')"

definition calculateVestingSchedule :: "JSRuntime \<Rightarrow> EquityGrant \<Rightarrow> VestingEvent list" where
  "calculateVestingSchedule js grant =
     (let currentStockPrice' = orElse (currentStockPrice grant) 0
      in case vestingSchedule grant of
           None \<Rightarrow> []
         | Some vs \<Rightarrow>
             (let startDate = vestingStart grant;
                  cliffMonths' = orElse (cliffMonths vs) 0
              in if schedule_type vs = Standard then
                   (let quarterlyShares = amount grant / (totalYears vs * 4)
                    in standardLoop js startDate cliffMonths' (totalYears vs) quarterlyShares
                         currentStockPrice' 0)
                 else if schedule_type vs = Cliff then
                   [\<lparr>date = setMonthPlus js startDate cliffMonths',
                     sharesVested = amount grant,
                     cumulativeShares = amount grant,
                     estimatedValue = amount grant * currentStockPrice'\<rparr>]
                 else
                   (case percentages vs of
                      Some ps \<Rightarrow>
                        customLoop js startDate cliffMonths' (amount grant) currentStockPrice' ps 0 0
                    | None \<Rightarrow> [])))"

text \<open>
  The table of \<^verbatim>\<open>applyRiskDiscount\<close> and its lookup with the default
  \<^verbatim>\<open>|| 0.5\<close>. The stage arrives as a string; the callers pass the name of a
  \<open>CompanyStage\<close> or \<^verbatim>\<open>'public'\<close>.
\<close>

definition discountFactors :: "(string \<times> real) list" where
  "discountFactors =
     [(''startup'', 3 / 10), (''growth'', 6 / 10), (''pre-ipo'', 8 / 10), (''public'', 1)]"

definition applyRiskDiscount :: "real \<Rightarrow> string \<Rightarrow> real" where
  "applyRiskDiscount val stage =
     (let factor = orElse (map_of discountFactors stage) (5 / 10) in val * factor)"

definition firstCompanyStage :: "EquityGrant list \<Rightarrow> string" where
  \<comment> \<open>\<^verbatim>\<open>grants[0]?.companyStage || 'public'\<close>\<close>
  "firstCompanyStage grants =
     (case grants of
        [] \<Rightarrow> ''public''
      | g # _ \<Rightarrow> (case companyStage g of None \<Rightarrow> ''public'' | Some s \<Rightarrow> stageName s))"

text \<open>
  The variables that the loops of \<^verbatim>\<open>valueRSUs\<close> and \<^verbatim>\<open>valueStockOptions\<close>
  update.
\<close>

record Running =
  totalCurrentValue :: real
  totalPostTaxValue :: real
  allVestingEvents :: "VestingEvent list"
  assumptionsSoFar :: "string list"

definition rsuCapitalGains :: "real \<Rightarrow> real" where
  "rsuCapitalGains grantValueILS =
     (let taxableValueAtVesting = grantValueILS
      in max 0 (grantValueILS - taxableValueAtVesting))"

definition rsuTotalTax :: "real \<Rightarrow> real" where
  "rsuTotalTax grantValueILS =
     (let taxableValueAtVesting = grantValueILS;
          capitalGainsTax = calculateCapitalGains (rsuCapitalGains grantValueILS);
          ordinaryIncomeTax = taxableValueAtVesting * (35 / 100)
      in ordinaryIncomeTax + capitalGainsTax)"

text \<open>
  Each loop body awaits the converter at most once. \<open>net i\<close> is what the await of
  iteration \<open>i\<close> finds outside; the converter's state is threaded through the loop.
\<close>

fun valueRSUs_loop ::
  "JSRuntime \<Rightarrow> (nat \<Rightarrow> Network) \<Rightarrow> nat \<Rightarrow> EquityGrant list \<Rightarrow> Running \<Rightarrow> CurrencyConverter
     \<Rightarrow> Running \<times> CurrencyConverter" where
  "valueRSUs_loop js net i [] run this = (run, this)"
| "valueRSUs_loop js net i (grant # rest) run this =
     (let currentStockPrice' = orElse (currentStockPrice grant) 0;
          grantValue = amount grant * currentStockPrice';
          converted = (if currentStockPrice' > 0 then convertUSDToILS (net i) this grantValue
                       else (0, this));
          grantValueILS = fst converted;
          vestingEvents = calculateVestingSchedule js grant;
          totalTax = rsuTotalTax grantValueILS
      in valueRSUs_loop js net (Suc i) rest
           \<lparr>totalCurrentValue = totalCurrentValue run + grantValueILS,
            totalPostTaxValue = totalPostTaxValue run + max 0 (grantValueILS - totalTax),
            allVestingEvents = allVestingEvents run @ vestingEvents,
            assumptionsSoFar = assumptionsSoFar run @
              [''RSU grant valued at current stock price of $'' @ numberToString js currentStockPrice',
               ''RSUs taxed as ordinary income at vesting'']\<rparr>
           (snd converted))"

definition emptyRunning :: Running where
  "emptyRunning = \<lparr>totalCurrentValue = 0, totalPostTaxValue = 0, allVestingEvents = [],
                    assumptionsSoFar = []\<rparr>"

definition valueRSUs ::
  "JSRuntime \<Rightarrow> (nat \<Rightarrow> Network) \<Rightarrow> CurrencyConverter \<Rightarrow> EquityGrant list
     \<Rightarrow> EquityValuation \<times> CurrencyConverter" where
  "valueRSUs js net this grants =
     (case valueRSUs_loop js net 0 (filter (\<lambda>g. grant_type g = RSU) grants) emptyRunning this of
        (run, this') \<Rightarrow>
          (\<lparr>currentValue = totalCurrentValue run,
            postTaxValue = totalPostTaxValue run,
            riskAdjustedValue = applyRiskDiscount (totalCurrentValue run) (firstCompanyStage grants),
            valuation_vestingSchedule = sort_key date (allVestingEvents run),
            assumptions = assumptionsSoFar run\<rparr>, this'))"

fun valueStockOptions_loop ::
  "JSRuntime \<Rightarrow> (nat \<Rightarrow> Network) \<Rightarrow> nat \<Rightarrow> EquityGrant list \<Rightarrow> Running \<Rightarrow> CurrencyConverter
     \<Rightarrow> Running \<times> CurrencyConverter" where
  "valueStockOptions_loop js net i [] run this = (run, this)"
| "valueStockOptions_loop js net i (grant # rest) run this =
     (let currentStockPrice' = orElse (currentStockPrice grant) 0;
          strikePrice' = orElse (strikePrice grant) 0;
          intrinsicValue = max 0 (currentStockPrice' - strikePrice');
          grantValue = amount grant * intrinsicValue;
          converted = (if intrinsicValue > 0 then convertUSDToILS (net i) this grantValue
                       else (0, this));
          grantValueILS = fst converted;
          vestingEvents = calculateVestingSchedule js grant;
          postTax = (if grant_type grant = ISO
                     then max 0 (grantValueILS - calculateCapitalGains grantValueILS)
                     else max 0 (grantValueILS - grantValueILS * (35 / 100)));
          note = (if grant_type grant = ISO
                  then ''ISO options assumed to qualify for capital gains treatment''
                  else ''NQSO options: spread taxed as ordinary income'')
      in valueStockOptions_loop js net (Suc i) rest
           \<lparr>totalCurrentValue = totalCurrentValue run + grantValueILS,
            totalPostTaxValue = totalPostTaxValue run + postTax,
            allVestingEvents = allVestingEvents run @ vestingEvents,
            assumptionsSoFar = assumptionsSoFar run @
              [note,
               ''Options valued at intrinsic value: $'' @ numberToString js currentStockPrice'
                 @ '' - $'' @ numberToString js strikePrice'
                 @ '' = $'' @ numberToString js intrinsicValue @ '' per share'']\<rparr>
           (snd converted))"

definition valueStockOptions ::
  "JSRuntime \<Rightarrow> (nat \<Rightarrow> Network) \<Rightarrow> CurrencyConverter \<Rightarrow> EquityGrant list
     \<Rightarrow> EquityValuation \<times> CurrencyConverter" where
  "valueStockOptions js net this grants =
     (case valueStockOptions_loop js net 0
             (filter (\<lambda>g. grant_type g = ISO \<or> grant_type g = NQSO) grants) emptyRunning this of
        (run, this') \<Rightarrow>
          (\<lparr>currentValue = totalCurrentValue run,
            postTaxValue = totalPostTaxValue run,
            riskAdjustedValue = applyRiskDiscount (totalCurrentValue run) (firstCompanyStage grants),
            valuation_vestingSchedule = sort_key date (allVestingEvents run),
            assumptions = assumptionsSoFar run\<rparr>, this'))"

definition esppPurchasePrice :: "EquityGrant \<Rightarrow> real" where
  \<comment> \<open>\<^verbatim>\<open>grant.strikePrice || currentStockPrice * 0.85\<close>\<close>
  "esppPurchasePrice grant =
     orElse (strikePrice grant) (orElse (currentStockPrice grant) 0 * (85 / 100))"

definition esppDiscount :: "EquityGrant \<Rightarrow> real" where
  "esppDiscount grant = orElse (currentStockPrice grant) 0 - esppPurchasePrice grant"

definition esppGrantValue :: "EquityGrant \<Rightarrow> real" where
  "esppGrantValue grant = amount grant * esppDiscount grant"

fun valueESPP_loop ::
  "JSRuntime \<Rightarrow> (nat \<Rightarrow> Network) \<Rightarrow> nat \<Rightarrow> EquityGrant list \<Rightarrow> Running \<Rightarrow> CurrencyConverter
     \<Rightarrow> Running \<times> CurrencyConverter" where
  "valueESPP_loop js net i [] run this = (run, this)"
| "valueESPP_loop js net i (grant # rest) run this =
     (let discount = esppDiscount grant;
          grantValue = esppGrantValue grant;
          converted = (if discount > 0 then convertUSDToILS (net i) this grantValue
                       else (0, this));
          grantValueILS = fst converted;
          ordinaryIncomeTax = grantValueILS * (35 / 100)
      in valueESPP_loop js net (Suc i) rest
           (run\<lparr>totalCurrentValue := totalCurrentValue run + grantValueILS,
                totalPostTaxValue := totalPostTaxValue run + max 0 (grantValueILS - ordinaryIncomeTax),
                assumptionsSoFar := assumptionsSoFar run @
                  [''ESPP discount of $'' @ numberToString js discount
                     @ '' per share taxed as ordinary income'']\<rparr>)
           (snd converted))"

text \<open>
  \<^verbatim>\<open>valueESPP\<close> has no list of vesting events; the field of \<open>Running\<close> stays as it
  starts and the result's schedule is the literal \<^verbatim>\<open>[]\<close>.
\<close>

definition valueESPP ::
  "JSRuntime \<Rightarrow> (nat \<Rightarrow> Network) \<Rightarrow> CurrencyConverter \<Rightarrow> EquityGrant list
     \<Rightarrow> EquityValuation \<times> CurrencyConverter" where
  "valueESPP js net this grants =
     (case valueESPP_loop js net 0 (filter (\<lambda>g. grant_type g = ESPP) grants) emptyRunning this of
        (run, this') \<Rightarrow>
          (\<lparr>currentValue = totalCurrentValue run,
            postTaxValue = totalPostTaxValue run,
            riskAdjustedValue = totalCurrentValue run,
            valuation_vestingSchedule = [],
            assumptions = assumptionsSoFar run\<rparr>, this'))"

section \<open>CompensationCalculator.validateInputs\<close>

text \<open>
  Of the package, the fields that \<^verbatim>\<open>validateInputs\<close> reads. \<^verbatim>\<open>grants\<close> is
  optional because the function tests for it.
\<close>

record SalaryData =
  baseSalary :: real
  currency :: Currency

record FundContribution =
  employeeContribution :: real
  employerContribution :: real

record BenefitsData =
  pensionFund :: FundContribution
  studyFund :: FundContribution
  vacationDays :: real

record EquityData =
  grants :: "EquityGrant list option"

record CompensationPackage =
  salary :: SalaryData
  benefits :: BenefitsData
  equity :: EquityData

record Validation =
  isValid :: bool
  errors :: "string list"

definition optLess :: "real option \<Rightarrow> real \<Rightarrow> bool" where
  \<comment> \<open>\<^verbatim>\<open>x < c\<close> on an optional number: \<^verbatim>\<open>undefined < c\<close> is false\<close>
  "optLess x c = (case x of None \<Rightarrow> False | Some v \<Rightarrow> v < c)"

definition strikePriceErrors :: "EquityGrant \<Rightarrow> string list" where
  "strikePriceErrors grant =
     (if grant_type grant = ISO \<or> grant_type grant = NQSO then
        (if \<not> truthy (strikePrice grant) \<or> optLess (strikePrice grant) 0
         then [''Strike price is required for stock options''] else [])
      else [])"

definition grantErrors :: "EquityGrant \<Rightarrow> string list" where
  \<comment> \<open>the body of the loop over the grants\<close>
  "grantErrors grant =
     (if amount grant \<le> 0 then [''Equity grant amount must be greater than 0''] else [])
     @ strikePriceErrors grant
     @ (if truthy (currentStockPrice grant) \<and> optLess (currentStockPrice grant) 0
        then [''Current stock price must be positive''] else [])"

definition validateInputs :: "CompensationPackage \<Rightarrow> Validation" where
  "validateInputs packageData =
     (let errors' =
        (if baseSalary (salary packageData) = 0 \<or> baseSalary (salary packageData) \<le> 0
         then [''Base salary must be greater than 0''] else [])
        @ (if baseSalary (salary packageData) > 200000 \<and> currency (salary packageData) = ILS
           then [''Monthly salary seems unusually high. Please verify the amount.''] else [])
        @ (if baseSalary (salary packageData) > 50000 \<and> currency (salary packageData) = USD
           then [''Monthly salary in USD seems unusually high. Please verify the amount.''] else [])
        @ (if employerContribution (pensionFund (benefits packageData)) < 0
              \<or> employerContribution (pensionFund (benefits packageData)) > 10
           then [''Pension fund employer contribution should be between 0% and 10%''] else [])
        @ (if employerContribution (studyFund (benefits packageData)) < 0
              \<or> employerContribution (studyFund (benefits packageData)) > 15
           then [''Study fund employer contribution should be between 0% and 15%''] else [])
        @ (if vacationDays (benefits packageData) < 0 \<or> vacationDays (benefits packageData) > 50
           then [''Vacation days should be between 0 and 50''] else [])
        @ (case grants (equity packageData) of
             None \<Rightarrow> []
           | Some gs \<Rightarrow> concat (map grantErrors gs))
      in \<lparr>isValid = (length errors' = 0), errors = errors'\<rparr>)"

section \<open>Auxiliary definitions for the statements\<close>

text \<open>
  The expression \<^verbatim>\<open>convertCurrency(await convertCurrency(X, 'USD', 'ILS'), 'ILS', 'USD')\<close>:
  two calls in sequence, each with its own surroundings, the state handed on.
\<close>

definition convertThereAndBack ::
  "Network \<Rightarrow> Network \<Rightarrow> CurrencyConverter \<Rightarrow> real \<Rightarrow> error + real \<times> CurrencyConverter" where
  "convertThereAndBack net1 net2 this X =
     (case convertCurrency net1 this X USD ILS of
        Inl e \<Rightarrow> Inl e
      | Inr (y, this') \<Rightarrow> convertCurrency net2 this' y ILS USD)"

text \<open>No rate that a fetch delivers, and no cached rate, is negative.\<close>

definition fetchedNonneg :: "error + ExchangeRate \<Rightarrow> bool" where
  "fetchedNonneg outcome = (case outcome of Inl _ \<Rightarrow> True | Inr r \<Rightarrow> 0 \<le> rate r)"

definition networkNonneg :: "Network \<Rightarrow> bool" where
  "networkNonneg net =
     (fetchedNonneg (fetchFromPrimaryAPI net) \<and> fetchedNonneg (fetchFromBankOfIsrael net))"

definition cacheNonneg :: "CurrencyConverter \<Rightarrow> bool" where
  "cacheNonneg this = (case cachedRate this of None \<Rightarrow> True | Some r \<Rightarrow> 0 \<le> rate r)"

text \<open>Surroundings for the examples: a network on which both fetches fail, and a runtime.\<close>

definition offline :: Network where
  "offline = \<lparr>dateNow = 1000,
              fetchFromPrimaryAPI = Inl (Error ''Primary API error: 500''),
              fetchFromBankOfIsrael = Inl (Error ''Bank of Israel API error: 503''),
              dateNowInCacheRate = 1001\<rparr>"

definition exampleRuntime :: JSRuntime where
  "exampleRuntime = \<lparr>setMonthPlus = (\<lambda>d k. d + \<lfloor>k\<rfloor> * 2629746000),
                      numberToString = (\<lambda>x. ''n'')\<rparr>"

text \<open>
  A grant of 4800 units on the standard schedule of four years with a cliff of twelve
  months, and the network on which the primary source answers 3.7.
\<close>

definition standardSchedule :: VestingSchedule where
  "standardSchedule = \<lparr>schedule_type = Standard, totalYears = 4, cliffMonths = Some 12,
                        frequency = Quarterly, percentages = None\<rparr>"

definition exampleGrant :: EquityGrant where
  "exampleGrant = \<lparr>grant_id = ''grant-1'', grant_type = RSU, amount = 4800,
                    grantDate = 1704067200000, vestingStart = 1704067200000,
                    vestingSchedule = Some standardSchedule, strikePrice = None,
                    currentStockPrice = Some 10, companyValuation = None,
                    companyStage = Some Startup\<rparr>"

text \<open>
  \<^verbatim>\<open>createNewGrant\<close> of the equity input form (components/input/EquityInput): the
  grant that the form adds for a grant type, \<open>now\<close> being the time of the click. The
  digits that the form appends to the id are left out.
\<close>

definition createNewGrant :: "int \<Rightarrow> GrantType \<Rightarrow> EquityGrant" where
  "createNewGrant now ty =
     \<lparr>grant_id = ''grant-'',
      grant_type = ty,
      amount = (if ty = ESPP then 10 else 0),
      grantDate = now,
      vestingStart = now,
      vestingSchedule = Some \<lparr>schedule_type = Standard,
                               totalYears = (if ty = ESPP then 1 else 4),
                               cliffMonths = Some (if ty = ESPP then 0 else 12),
                               frequency = Quarterly,
                               percentages = None\<rparr>,
      strikePrice = (if ty = ESPP then Some 15 else if ty \<noteq> RSU then Some 0 else None),
      currentStockPrice = Some 0,
      companyValuation = Some 0,
      companyStage = Some Startup\<rparr>"

text \<open>A grant of 1200 units whose schedule runs over 0.3 years, that is 1.2 quarters.\<close>

definition fractionalGrant :: EquityGrant where
  "fractionalGrant =
     exampleGrant\<lparr>amount := 1200,
                   vestingSchedule := Some (standardSchedule\<lparr>totalYears := 3 / 10\<rparr>)\<rparr>"

text \<open>
  The salary, benefits and equity of \<^verbatim>\<open>createDefaultPackage\<close>
  (contexts/CompensationContext).
\<close>

definition defaultPackage :: CompensationPackage where
  "defaultPackage =
     \<lparr>salary = \<lparr>baseSalary = 25000, currency = ILS\<rparr>,
      benefits = \<lparr>pensionFund = \<lparr>employeeContribution = 6, employerContribution = 6\<rparr>,
                  studyFund = \<lparr>employeeContribution = 25 / 10, employerContribution = 75 / 10\<rparr>,
                  vacationDays = 20\<rparr>,
      equity = \<lparr>grants = Some []\<rparr>\<rparr>"

text \<open>A grant with a negative amount: minus ten units at a price of one dollar.\<close>

definition negativeGrant :: EquityGrant where
  "negativeGrant = exampleGrant\<lparr>amount := - 10, currentStockPrice := Some 1\<rparr>"

text \<open>
  A purchase-plan grant of 100 units at a price of 100 dollars with no strike price set,
  and a converter whose cache holds the rate 3.7 until one hour after the epoch.
\<close>

definition esppGrant :: EquityGrant where
  "esppGrant = exampleGrant\<lparr>grant_type := ESPP, amount := 100, currentStockPrice := Some 100\<rparr>"

definition cachedConverter :: CurrencyConverter where
  "cachedConverter =
     \<lparr>cachedRate = Some \<lparr>rate = 37 / 10, lastUpdated = 0, source = ''exchangerate-api.com''\<rparr>,
      cacheExpiry = 3600000\<rparr>"

text \<open>
  The default package with one option grant: the grant that the input form creates for
  the type ISO (its strike price is 0), after the user has entered 100 shares.
\<close>

definition optionPackage :: CompensationPackage where
  "optionPackage =
     defaultPackage\<lparr>equity := \<lparr>grants = Some [(createNewGrant 0 ISO)\<lparr>amount := 100\<rparr>]\<rparr>\<rparr>"

section \<open>Properties of the tax calculator\<close>

definition bracketsOk :: "TaxBracket list \<Rightarrow> bool" where
  \<comment> \<open>every rate is non-negative and no bracket has its upper end below its lower end\<close>
  "bracketsOk brackets =
     list_all (\<lambda>b. 0 \<le> bracket_rate b \<and>
                  (case bracket_max b of None \<Rightarrow> True | Some m \<Rightarrow> bracket_min b \<le> m))
       brackets"

lemma bracketsOk_2024: "bracketsOk ISRAELI_TAX_BRACKETS_2024_brackets"
  by (simp add: bracketsOk_def ISRAELI_TAX_BRACKETS_2024_brackets_def)

lemma incomeTaxLoop_ge_total:
  "bracketsOk brackets \<Longrightarrow> totalTax \<le> incomeTaxLoop brackets remainingIncome totalTax"
proof (induction brackets arbitrary: remainingIncome totalTax)
  case Nil
  show ?case by simp
next
  case (Cons b rest)
  from Cons.prems have ok: "bracketsOk rest" and rate: "0 \<le> bracket_rate b"
    and width: "case bracket_max b of None \<Rightarrow> True | Some m \<Rightarrow> bracket_min b \<le> m"
    by (simp_all add: bracketsOk_def)
  show ?case
  proof (cases "remainingIncome \<le> 0")
    case True
    then show ?thesis by simp
  next
    case False
    define x where "x = min remainingIncome
        (case bracket_max b of None \<Rightarrow> remainingIncome | Some m \<Rightarrow> m - bracket_min b)"
    have "0 \<le> x"
      using False width by (auto simp: x_def split: option.splits)
    with rate have "totalTax \<le> totalTax + x * bracket_rate b" by simp
    also have "\<dots> \<le> incomeTaxLoop rest (remainingIncome - x) (totalTax + x * bracket_rate b)"
      by (rule Cons.IH [OF ok])
    finally show ?thesis using False by (simp add: x_def Let_def)
  qed
qed

lemma incomeTaxLoop_mono:
  "bracketsOk brackets \<Longrightarrow> r \<le> r' \<Longrightarrow> t \<le> t' \<Longrightarrow>
   incomeTaxLoop brackets r t \<le> incomeTaxLoop brackets r' t'"
proof (induction brackets arbitrary: r r' t t')
  case Nil
  then show ?case by simp
next
  case (Cons b rest)
  from Cons.prems have ok: "bracketsOk rest" and rate: "0 \<le> bracket_rate b"
    and width: "case bracket_max b of None \<Rightarrow> True | Some m \<Rightarrow> bracket_min b \<le> m"
    by (simp_all add: bracketsOk_def)
  define x where "x = min r (case bracket_max b of None \<Rightarrow> r | Some m \<Rightarrow> m - bracket_min b)"
  define x' where "x' = min r' (case bracket_max b of None \<Rightarrow> r' | Some m \<Rightarrow> m - bracket_min b)"
  show ?case
  proof (cases "r' \<le> 0")
    case True
    with Cons.prems show ?thesis by simp
  next
    case pos': False
    have x'0: "0 \<le> x'"
      using pos' width by (auto simp: x'_def split: option.splits)
    have step': "incomeTaxLoop (b # rest) r' t' = incomeTaxLoop rest (r' - x') (t' + x' * bracket_rate b)"
      using pos' by (simp add: x'_def Let_def)
    show ?thesis
    proof (cases "r \<le> 0")
      case True
      have "t \<le> t' + x' * bracket_rate b"
        using Cons.prems(3) x'0 rate by (simp add: add_increasing2)
      also have "\<dots> \<le> incomeTaxLoop rest (r' - x') (t' + x' * bracket_rate b)"
        by (rule incomeTaxLoop_ge_total [OF ok])
      finally show ?thesis using True step' by simp
    next
      case False
      have xx': "x \<le> x'" and rest_le: "r - x \<le> r' - x'"
        using Cons.prems(2) by (auto simp: x_def x'_def split: option.splits)
      have "x * bracket_rate b \<le> x' * bracket_rate b"
        using xx' rate by (rule mult_right_mono)
      with Cons.prems(3) have "t + x * bracket_rate b \<le> t' + x' * bracket_rate b" by simp
      from Cons.IH [OF ok rest_le this] show ?thesis
        using False step' by (simp add: x_def Let_def)
    qed
  qed
qed

lemma calculateIncomeTax_nonneg: "0 \<le> calculateIncomeTax S p"
  by (simp add: calculateIncomeTax_def)

lemma deductions_nonneg:
  assumes "0 \<le> S"
  shows "0 \<le> calculateBituachLeumi S"
    and "0 \<le> employee (calculatePensionContributions S)"
    and "0 \<le> employee (calculateStudyFundContributions S)"
  using assms
  by (simp_all add: calculateBituachLeumi_def calculatePensionContributions_def
      calculateStudyFundContributions_def Let_def BITUACH_LEUMI_2024_rate_def
      BITUACH_LEUMI_2024_monthlyCeiling_def PENSION_RATES_2024_employee_rate_def
      PENSION_RATES_2024_maxMonthlySalaryForPension_def STUDY_FUND_RATES_2024_employee_rate_def
      STUDY_FUND_RATES_2024_maxMonthlySalaryForStudyFund_def)

text \<open>
  Claim C4. For every monthly salary \<open>S \<ge> 0\<close>, \<open>calculateIncomeTax(S, 0)\<close> is
  non-negative and does not decrease when the salary grows, and
  \<open>calculateIncomeTax(0, p)\<close> is 0 for every number of tax points \<open>p \<ge> 0\<close>.
\<close>

theorem calculateIncomeTax_nonneg_mono_zero:
  assumes "0 \<le> S" and "S \<le> S'" and "0 \<le> p"
  shows "0 \<le> calculateIncomeTax S 0
       \<and> calculateIncomeTax S 0 \<le> calculateIncomeTax S' 0
       \<and> calculateIncomeTax 0 p = 0"
proof (intro conjI)
  show "0 \<le> calculateIncomeTax S 0"
    by (simp add: calculateIncomeTax_def)
  have "incomeTaxLoop ISRAELI_TAX_BRACKETS_2024_brackets (max 0 S) 0
      \<le> incomeTaxLoop ISRAELI_TAX_BRACKETS_2024_brackets (max 0 S') 0"
    using assms(2) by (intro incomeTaxLoop_mono bracketsOk_2024) simp_all
  then show "calculateIncomeTax S 0 \<le> calculateIncomeTax S' 0"
    by (simp add: calculateIncomeTax_def)
  have "max 0 (0 - p * TAX_POINTS_2024_taxPointValue) = 0"
    using assms(3) by (simp add: TAX_POINTS_2024_taxPointValue_def)
  then show "calculateIncomeTax 0 p = 0"
    by (simp add: calculateIncomeTax_def ISRAELI_TAX_BRACKETS_2024_brackets_def)
qed

theorem calculateIncomeTax_nonneg_mono_zero_witness:
  "0 \<le> calculateIncomeTax 10000 0
   \<and> calculateIncomeTax 10000 0 \<le> calculateIncomeTax 20000 0
   \<and> calculateIncomeTax 0 (9 / 4) = 0"
  using calculateIncomeTax_nonneg_mono_zero [of 10000 20000 "9 / 4"] by simp

text \<open>
  Claim C6. For every gross monthly salary \<open>S \<ge> 0\<close> and tax points \<open>p \<ge> 0\<close>, the
  net salary of \<open>getNetSalary(S, p)\<close> is the gross salary minus income tax, social
  security, the employee's pension and the employee's study fund, floored at 0; it lies
  between 0 and \<open>S\<close>.
\<close>

theorem getNetSalary_bounds:
  assumes "0 \<le> S" and "0 \<le> p"
  shows "netSalary (getNetSalary S p)
           = max 0 (S - (calculateIncomeTax S p + calculateBituachLeumi S
                          + employee (calculatePensionContributions S)
                          + employee (calculateStudyFundContributions S)))
       \<and> 0 \<le> netSalary (getNetSalary S p)
       \<and> netSalary (getNetSalary S p) \<le> S"
proof -
  have eq: "netSalary (getNetSalary S p)
           = max 0 (S - (calculateIncomeTax S p + calculateBituachLeumi S
                          + employee (calculatePensionContributions S)
                          + employee (calculateStudyFundContributions S)))"
    by (simp add: getNetSalary_def Let_def)
  have "0 \<le> calculateIncomeTax S p + calculateBituachLeumi S
                          + employee (calculatePensionContributions S)
                          + employee (calculateStudyFundContributions S)"
    using deductions_nonneg [OF assms(1)] calculateIncomeTax_nonneg [of S p] by linarith
  with assms(1) eq show ?thesis by simp
qed

text \<open>The scenario of the specification: 25000 a month at 2.25 tax points.\<close>

theorem getNetSalary_bounds_witness:
  "netSalary (getNetSalary 25000 (9 / 4)) = 1346243 / 80
   \<and> 0 \<le> netSalary (getNetSalary 25000 (9 / 4))
   \<and> netSalary (getNetSalary 25000 (9 / 4)) \<le> 25000"
  using getNetSalary_bounds [of 25000 "9 / 4"]
  by (simp add: calculateIncomeTax_def ISRAELI_TAX_BRACKETS_2024_brackets_def
      calculateBituachLeumi_def calculatePensionContributions_def
      calculateStudyFundContributions_def Let_def BITUACH_LEUMI_2024_rate_def
      BITUACH_LEUMI_2024_monthlyCeiling_def PENSION_RATES_2024_employee_rate_def
      PENSION_RATES_2024_maxMonthlySalaryForPension_def STUDY_FUND_RATES_2024_employee_rate_def
      STUDY_FUND_RATES_2024_maxMonthlySalaryForStudyFund_def TAX_POINTS_2024_taxPointValue_def)

section \<open>Properties of the currency converter\<close>

lemma getCurrentExchangeRate_cached:
  assumes "cachedRate this = Some r" and "dateNow net < cacheExpiry this"
  shows "getCurrentExchangeRate net this = (r, this)"
  using assms by (simp add: getCurrentExchangeRate_def)

text \<open>
  Claim C5. When the primary fetch fails, the secondary fetch fails too and no rate has
  been cached, \<open>getCurrentExchangeRate\<close> returns the hardcoded fallback rate (3.7, source
  \<open>fallback\<close>) and leaves the state as it was; no error reaches the caller, so a
  conversion that goes through it succeeds.
\<close>

theorem getCurrentExchangeRate_fallback:
  assumes "fetchFromPrimaryAPI net = Inl e1"
    and "fetchFromBankOfIsrael net = Inl e2"
    and "cachedRate this = None"
  shows "getCurrentExchangeRate net this
           = (\<lparr>rate = 37 / 10, lastUpdated = 1704067200000, source = ''fallback''\<rparr>, this)
       \<and> convertCurrency net this x USD ILS = Inr (x * (37 / 10), this)"
  using assms
  by (simp add: convertCurrency_def convertUSDToILS_def getCurrentExchangeRate_def
      getCurrentExchangeRate_try_def FALLBACK_EXCHANGE_RATE_usdToIls_def
      FALLBACK_EXCHANGE_RATE_lastUpdated_def FALLBACK_EXCHANGE_RATE_source_def)

theorem getCurrentExchangeRate_fallback_witness:
  "getCurrentExchangeRate offline initialConverter
     = (\<lparr>rate = 37 / 10, lastUpdated = 1704067200000, source = ''fallback''\<rparr>, initialConverter)
   \<and> convertCurrency offline initialConverter 100 USD ILS = Inr (370, initialConverter)"
  using getCurrentExchangeRate_fallback [of offline "Error ''Primary API error: 500''"
      "Error ''Bank of Israel API error: 503''" initialConverter 100]
  by (simp add: offline_def initialConverter_def)

text \<open>
  Claim C8. With a positive rate in the cache and the cache valid at both calls,
  converting an amount from USD to ILS and the result back from ILS to USD gives the
  amount again: the first call multiplies by the cached rate, the second divides by it.
  This is exact for real numbers; the rounding of floating-point numbers is not modelled.
\<close>

theorem convertCurrency_round_trip:
  assumes "cachedRate this = Some r" and "0 < rate r"
    and "dateNow net1 < cacheExpiry this" and "dateNow net2 < cacheExpiry this"
  shows "convertCurrency net1 this X USD ILS = Inr (X * rate r, this)
       \<and> convertCurrency net2 this (X * rate r) ILS USD = Inr (X, this)
       \<and> convertThereAndBack net1 net2 this X = Inr (X, this)"
  using assms
  by (simp add: convertThereAndBack_def convertCurrency_def convertUSDToILS_def
      convertILSToUSD_def getCurrentExchangeRate_cached)

theorem convertCurrency_round_trip_witness:
  "convertThereAndBack offline (offline\<lparr>dateNow := 2000\<rparr>)
     \<lparr>cachedRate = Some \<lparr>rate = 37 / 10, lastUpdated = 0, source = ''exchangerate-api.com''\<rparr>,
      cacheExpiry = 3600000\<rparr> 100
   = Inr (100, \<lparr>cachedRate = Some \<lparr>rate = 37 / 10, lastUpdated = 0, source = ''exchangerate-api.com''\<rparr>,
      cacheExpiry = 3600000\<rparr>)"
  using convertCurrency_round_trip [of
      "\<lparr>cachedRate = Some \<lparr>rate = 37 / 10, lastUpdated = 0, source = ''exchangerate-api.com''\<rparr>,
        cacheExpiry = 3600000\<rparr>"
      "\<lparr>rate = 37 / 10, lastUpdated = 0, source = ''exchangerate-api.com''\<rparr>"
      offline "offline\<lparr>dateNow := 2000\<rparr>" 100]
  by (simp add: offline_def)

section \<open>Properties of the vesting schedule\<close>

lemma real_less_iff_less_ceiling: "(real k < x) = (k < nat \<lceil>x\<rceil>)"
  by (simp add: zless_nat_eq_int_zless less_ceiling_iff)

text \<open>The loop of the standard schedule makes one event for each quarter below \<open>totalYears * 4\<close>.\<close>

lemma standardLoop_map:
  "standardLoop js startDate c ty q p k = map (standardEvent js startDate c q p) [k..<nat \<lceil>ty * 4\<rceil>]"
proof (induction js startDate c ty q p k rule: standardLoop.induct)
  case (1 js startDate c ty q p k)
  show ?case
  proof (cases "real k < ty * 4")
    case True
    then have "k < nat \<lceil>ty * 4\<rceil>" by (simp add: real_less_iff_less_ceiling)
    then have upt: "[k..<nat \<lceil>ty * 4\<rceil>] = k # [Suc k..<nat \<lceil>ty * 4\<rceil>]"
      by (rule upt_conv_Cons)
    show ?thesis
      using True "1.IH" [OF True]
      by (subst standardLoop.simps) (simp add: upt)
  next
    case False
    then have "\<not> k < nat \<lceil>ty * 4\<rceil>" by (simp add: real_less_iff_less_ceiling)
    then show ?thesis
      using False by (subst standardLoop.simps) simp
  qed
qed

lemma calculateVestingSchedule_standard:
  assumes "vestingSchedule g = Some vs" and "schedule_type vs = Standard"
  shows "calculateVestingSchedule js g =
           map (standardEvent js (vestingStart g) (orElse (cliffMonths vs) 0)
                  (amount g / (totalYears vs * 4)) (orElse (currentStockPrice g) 0))
             [0..<nat \<lceil>totalYears vs * 4\<rceil>]"
  using assms by (simp add: calculateVestingSchedule_def Let_def standardLoop_map)

lemma sharesVested_standardEvent:
  "sharesVested (standardEvent js s c q p k) = (if k = 0 \<and> 0 < c then q * (c / 3 + 1) else q)"
  by (simp add: standardEvent_def Let_def)

lemma cumulativeShares_standardEvent:
  "cumulativeShares (standardEvent js s c q p k) = (real k + 1) * q"
  by (simp add: standardEvent_def Let_def)

lemma sum_sharesVested_standard:
  assumes "0 < N" and "0 < c"
  shows "sum_list (map sharesVested (map (standardEvent js s c q p) [0..<N])) = q * (real N + c / 3)"
proof -
  from assms(1) have upt: "[0..<N] = 0 # [Suc 0..<N]" by (rule upt_conv_Cons)
  have rest: "map (\<lambda>k. if k = 0 \<and> 0 < c then q * (c / 3 + 1) else q) [Suc 0..<N]
            = map (\<lambda>k. q) [Suc 0..<N]"
    by (rule map_cong) auto
  have "sum_list (map sharesVested (map (standardEvent js s c q p) [0..<N]))
      = sum_list (map (\<lambda>k. if k = 0 \<and> 0 < c then q * (c / 3 + 1) else q) [0..<N])"
    by (simp add: comp_def sharesVested_standardEvent)
  also have "\<dots> = q * (c / 3 + 1)
                 + sum_list (map (\<lambda>k. if k = 0 \<and> 0 < c then q * (c / 3 + 1) else q) [Suc 0..<N])"
    unfolding upt using assms(2) by simp
  also have "\<dots> = q * (c / 3 + 1) + real (N - 1) * q"
    unfolding rest by (simp add: sum_list_triv)
  also have "\<dots> = q * (real N + c / 3)"
    using assms(1) by (simp add: algebra_simps of_nat_diff)
  finally show ?thesis .
qed

text \<open>
  Claim C2. A grant of 4800 shares on a standard schedule with \<open>totalYears = 4\<close> and
  \<open>cliffMonths = 12\<close> gets exactly 16 events; the first event vests the tranche of 300
  times \<open>12 / 3 + 1\<close>, which is 1500 (so at least 1500); the cumulative shares of the last
  event are the whole grant, 4800.
\<close>

theorem standard_4800_schedule:
  assumes "amount g = 4800" and "vestingSchedule g = Some vs" and "schedule_type vs = Standard"
    and "totalYears vs = 4" and "cliffMonths vs = Some 12"
  shows "length (calculateVestingSchedule js g) = 16
       \<and> sharesVested (hd (calculateVestingSchedule js g)) = 300 * (12 / 3 + 1)
       \<and> 1500 \<le> sharesVested (hd (calculateVestingSchedule js g))
       \<and> cumulativeShares (last (calculateVestingSchedule js g)) = 4800"
proof -
  have evs: "calculateVestingSchedule js g =
      map (standardEvent js (vestingStart g) 12 300 (orElse (currentStockPrice g) 0)) [0..<16]"
    using assms by (simp add: calculateVestingSchedule_standard orElse_def)
  show ?thesis
    unfolding evs
    by (simp add: hd_conv_nth last_conv_nth sharesVested_standardEvent cumulativeShares_standardEvent)
qed

theorem standard_4800_schedule_witness:
  "length (calculateVestingSchedule exampleRuntime exampleGrant) = 16
   \<and> sharesVested (hd (calculateVestingSchedule exampleRuntime exampleGrant)) = 1500
   \<and> cumulativeShares (last (calculateVestingSchedule exampleRuntime exampleGrant)) = 4800"
  using standard_4800_schedule [of exampleGrant standardSchedule exampleRuntime]
  by (simp add: exampleGrant_def standardSchedule_def)

text \<open>
  Claim C9, as amended. On a standard schedule with \<open>totalYears > 0\<close> and
  \<open>cliffMonths > 0\<close>, the cumulative shares of event \<open>i\<close> are
  \<open>(i + 1) * amount / (totalYears * 4)\<close>. When \<open>totalYears * 4\<close> is a whole number, the
  shares vested over all events add up to
  \<open>amount + (amount / (totalYears * 4)) * (cliffMonths / 3)\<close>. When the amount is
  positive, that sum is strictly more than the amount, and the first event's cumulative
  shares are strictly less than the shares it vests.
\<close>

theorem standard_schedule_overcounts:
  assumes "vestingSchedule g = Some vs" and "schedule_type vs = Standard"
    and "0 < totalYears vs" and "cliffMonths vs = Some c" and "0 < c"
    and "evs = calculateVestingSchedule js g"
  shows "(\<forall>i<length evs. cumulativeShares (evs ! i) = (real i + 1) * amount g / (totalYears vs * 4))
       \<and> (totalYears vs * 4 = real n \<longrightarrow>
            sum_list (map sharesVested evs)
              = amount g + amount g / (totalYears vs * 4) * (c / 3))
       \<and> (0 < amount g \<longrightarrow>
            amount g < sum_list (map sharesVested evs)
            \<and> cumulativeShares (hd evs) < sharesVested (hd evs))"
proof -
  define N where "N = nat \<lceil>totalYears vs * 4\<rceil>"
  define q where "q = amount g / (totalYears vs * 4)"
  define ev where "ev = standardEvent js (vestingStart g) c q (orElse (currentStockPrice g) 0)"
  have c0: "orElse (cliffMonths vs) 0 = c"
    using assms(4,5) by (simp add: orElse_def)
  have evs: "evs = map ev [0..<N]"
    using assms(1,2,6) by (simp add: calculateVestingSchedule_standard c0 N_def q_def ev_def)
  have Npos: "0 < N"
    using assms(3) by (simp add: N_def)
  have Nge: "totalYears vs * 4 \<le> real N"
    unfolding N_def using assms(3) by (simp add: of_nat_ceiling)
  have cum: "\<forall>i<length evs. cumulativeShares (evs ! i) = (real i + 1) * amount g / (totalYears vs * 4)"
    by (simp add: evs ev_def cumulativeShares_standardEvent q_def)
  have total: "sum_list (map sharesVested evs) = q * (real N + c / 3)"
    unfolding evs ev_def by (rule sum_sharesVested_standard [OF Npos assms(5)])
  have whole: "sum_list (map sharesVested evs) = amount g + amount g / (totalYears vs * 4) * (c / 3)"
    if "totalYears vs * 4 = real n"
  proof -
    from that have "N = n" by (simp add: N_def)
    with that have "q * real N = amount g"
      using assms(3) by (simp add: q_def)
    then show ?thesis
      by (simp add: total distrib_left q_def)
  qed
  have strict: "amount g < sum_list (map sharesVested evs)
      \<and> cumulativeShares (hd evs) < sharesVested (hd evs)" if "0 < amount g"
  proof -
    from that assms(3) have qpos: "0 < q" by (simp add: q_def)
    have "amount g = q * (totalYears vs * 4)"
      using assms(3) by (simp add: q_def)
    also have "\<dots> \<le> q * real N"
      using Nge qpos by simp
    also have "\<dots> < q * (real N + c / 3)"
      using qpos assms(5) by simp
    finally have 1: "amount g < sum_list (map sharesVested evs)"
      by (simp add: total)
    have "hd evs = ev 0"
      using Npos by (simp add: evs hd_conv_nth)
    then have 2: "cumulativeShares (hd evs) < sharesVested (hd evs)"
      using qpos assms(5) by (simp add: ev_def sharesVested_standardEvent cumulativeShares_standardEvent)
    from 1 2 show ?thesis ..
  qed
  from cum whole strict show ?thesis by blast
qed

theorem standard_schedule_overcounts_witness:
  "length (calculateVestingSchedule exampleRuntime exampleGrant) = 16
   \<and> cumulativeShares (calculateVestingSchedule exampleRuntime exampleGrant ! 7) = 2400
   \<and> sum_list (map sharesVested (calculateVestingSchedule exampleRuntime exampleGrant)) = 6000
   \<and> 4800 < sum_list (map sharesVested (calculateVestingSchedule exampleRuntime exampleGrant))
   \<and> cumulativeShares (hd (calculateVestingSchedule exampleRuntime exampleGrant))
       < sharesVested (hd (calculateVestingSchedule exampleRuntime exampleGrant))"
proof -
  have len: "length (calculateVestingSchedule exampleRuntime exampleGrant) = 16"
    by (simp add: calculateVestingSchedule_standard [of _ standardSchedule]
        exampleGrant_def standardSchedule_def)
  from standard_schedule_overcounts [of exampleGrant standardSchedule 12
      "calculateVestingSchedule exampleRuntime exampleGrant" exampleRuntime 16]
  have "(\<forall>i<16. cumulativeShares (calculateVestingSchedule exampleRuntime exampleGrant ! i)
                 = (real i + 1) * 4800 / 16)
      \<and> sum_list (map sharesVested (calculateVestingSchedule exampleRuntime exampleGrant)) = 6000
      \<and> 4800 < sum_list (map sharesVested (calculateVestingSchedule exampleRuntime exampleGrant))
      \<and> cumulativeShares (hd (calculateVestingSchedule exampleRuntime exampleGrant))
          < sharesVested (hd (calculateVestingSchedule exampleRuntime exampleGrant))"
    unfolding len by (simp add: exampleGrant_def standardSchedule_def)
  then have every: "\<forall>i<16. cumulativeShares (calculateVestingSchedule exampleRuntime exampleGrant ! i)
                 = (real i + 1) * 4800 / 16"
    and rest: "sum_list (map sharesVested (calculateVestingSchedule exampleRuntime exampleGrant)) = 6000
      \<and> 4800 < sum_list (map sharesVested (calculateVestingSchedule exampleRuntime exampleGrant))
      \<and> cumulativeShares (hd (calculateVestingSchedule exampleRuntime exampleGrant))
          < sharesVested (hd (calculateVestingSchedule exampleRuntime exampleGrant))"
    by blast+
  from every [rule_format, of 7]
  have "cumulativeShares (calculateVestingSchedule exampleRuntime exampleGrant ! 7) = 2400"
    by simp
  with len rest show ?thesis by simp
qed

text \<open>
  The claim as it is written fails in two places. The grant that the input form creates
  has amount 0: its events vest 0 shares in all, which is not more than the amount. And
  over 0.3 years the loop runs twice (1.2 quarters), so 1200 shares vest as 5000 + 1000,
  not as 1200 + 1000 * 4.
\<close>

theorem standard_schedule_overcounts_counterexample:
  "\<not> amount (createNewGrant 0 RSU)
       < sum_list (map sharesVested (calculateVestingSchedule exampleRuntime (createNewGrant 0 RSU)))
   \<and> sum_list (map sharesVested (calculateVestingSchedule exampleRuntime fractionalGrant))
       \<noteq> amount fractionalGrant + amount fractionalGrant / (3 / 10 * 4) * (12 / 3)"
proof
  have evs: "calculateVestingSchedule exampleRuntime (createNewGrant 0 RSU)
      = map (standardEvent exampleRuntime 0 12 0 0) [0..<16]"
    by (simp add: calculateVestingSchedule_standard createNewGrant_def orElse_def)
  have "sum_list (map sharesVested (map (standardEvent exampleRuntime 0 12 0 0) [0..<16]))
      = 0 * (real 16 + 12 / 3)"
    by (rule sum_sharesVested_standard) simp_all
  then have "sum_list (map sharesVested (calculateVestingSchedule exampleRuntime (createNewGrant 0 RSU))) = 0"
    by (simp add: evs)
  then show "\<not> amount (createNewGrant 0 RSU)
       < sum_list (map sharesVested (calculateVestingSchedule exampleRuntime (createNewGrant 0 RSU)))"
    by (simp add: createNewGrant_def)
next
  have evs: "calculateVestingSchedule exampleRuntime fractionalGrant
      = map (standardEvent exampleRuntime 1704067200000 12 1000 10) [0..<2]"
    by (simp add: calculateVestingSchedule_standard fractionalGrant_def exampleGrant_def
        standardSchedule_def orElse_def)
  have "sum_list (map sharesVested (map (standardEvent exampleRuntime 1704067200000 12 1000 10) [0..<2]))
      = 1000 * (real 2 + 12 / 3)"
    by (rule sum_sharesVested_standard) simp_all
  then have "sum_list (map sharesVested (calculateVestingSchedule exampleRuntime fractionalGrant)) = 6000"
    by (simp add: evs)
  then show "sum_list (map sharesVested (calculateVestingSchedule exampleRuntime fractionalGrant))
       \<noteq> amount fractionalGrant + amount fractionalGrant / (3 / 10 * 4) * (12 / 3)"
    by (simp add: fractionalGrant_def exampleGrant_def)
qed

section \<open>Properties of the equity valuator\<close>

lemma getCurrentExchangeRate_nonneg:
  assumes "networkNonneg net" and "cacheNonneg this"
  shows "0 \<le> rate (fst (getCurrentExchangeRate net this))
       \<and> cacheNonneg (snd (getCurrentExchangeRate net this))"
  using assms
  by (auto simp: getCurrentExchangeRate_def getCurrentExchangeRate_try_def networkNonneg_def
      fetchedNonneg_def cacheNonneg_def cacheRate_def FALLBACK_EXCHANGE_RATE_usdToIls_def
      split: option.splits sum.splits)

lemma convertUSDToILS_nonneg:
  assumes "networkNonneg net" and "cacheNonneg this" and "0 \<le> x"
  shows "0 \<le> fst (convertUSDToILS net this x) \<and> cacheNonneg (snd (convertUSDToILS net this x))"
  using getCurrentExchangeRate_nonneg [OF assms(1,2)] assms(3)
  by (cases "getCurrentExchangeRate net this") (simp add: convertUSDToILS_def)

lemma rsuCapitalGains_zero: "rsuCapitalGains v = 0"
  by (simp add: rsuCapitalGains_def)

lemma rsuTotalTax_flat: "rsuTotalTax v = 35 / 100 * v"
  by (simp add: rsuTotalTax_def rsuCapitalGains_zero calculateCapitalGains_def)

lemma valueRSUs_loop_post_tax:
  assumes "\<forall>i. networkNonneg (net i)" and "cacheNonneg this" and "\<forall>g\<in>set gs. 0 \<le> amount g"
  shows "totalPostTaxValue (fst (valueRSUs_loop js net i gs run this))
           - 65 / 100 * totalCurrentValue (fst (valueRSUs_loop js net i gs run this))
         = totalPostTaxValue run - 65 / 100 * totalCurrentValue run"
  using assms
proof (induction gs arbitrary: i run this)
  case Nil
  show ?case by simp
next
  case (Cons g rest)
  define price where "price = orElse (currentStockPrice g) 0"
  define converted where
    "converted = (if price > 0 then convertUSDToILS (net i) this (amount g * price) else (0, this))"
  have ok: "0 \<le> fst converted \<and> cacheNonneg (snd converted)"
  proof (cases "price > 0")
    case True
    with Cons.prems have "0 \<le> amount g * price" by simp
    from convertUSDToILS_nonneg [OF _ Cons.prems(2) this, of "net i"] Cons.prems(1) True
    show ?thesis by (simp add: converted_def)
  next
    case False
    with Cons.prems(2) show ?thesis by (simp add: converted_def)
  qed
  define run' where
    "run' = \<lparr>totalCurrentValue = totalCurrentValue run + fst converted,
             totalPostTaxValue = totalPostTaxValue run + max 0 (fst converted - rsuTotalTax (fst converted)),
             allVestingEvents = allVestingEvents run @ calculateVestingSchedule js g,
             assumptionsSoFar = assumptionsSoFar run @
               [''RSU grant valued at current stock price of $'' @ numberToString js price,
                ''RSUs taxed as ordinary income at vesting'']\<rparr>"
  have step: "valueRSUs_loop js net i (g # rest) run this
            = valueRSUs_loop js net (Suc i) rest run' (snd converted)"
    by (simp add: Let_def price_def converted_def run'_def)
  have "max 0 (fst converted - rsuTotalTax (fst converted)) = 65 / 100 * fst converted"
    using ok by (simp add: rsuTotalTax_flat)
  then have "totalPostTaxValue run' - 65 / 100 * totalCurrentValue run'
      = totalPostTaxValue run - 65 / 100 * totalCurrentValue run"
    by (simp add: run'_def algebra_simps)
  moreover have "totalPostTaxValue (fst (valueRSUs_loop js net (Suc i) rest run' (snd converted)))
           - 65 / 100 * totalCurrentValue (fst (valueRSUs_loop js net (Suc i) rest run' (snd converted)))
         = totalPostTaxValue run' - 65 / 100 * totalCurrentValue run'"
    using Cons.prems ok by (intro Cons.IH) simp_all
  ultimately show ?case by (simp only: step)
qed

text \<open>
  Claim C1, as amended. \<open>valueRSUs\<close> charges a flat 35% on the value of each grant plus
  capital-gains tax on \<open>max(0, value - taxableValueAtVesting)\<close>; the basis is the value
  itself, so that component is always 0. For every list of grants with non-negative
  current stock prices and non-negative amounts, when no exchange rate that the call
  obtains is negative, \<open>postTaxValue\<close> is 65% of \<open>currentValue\<close>.
\<close>

theorem valueRSUs_post_tax:
  assumes "\<forall>g\<in>set gs. case currentStockPrice g of None \<Rightarrow> True | Some p \<Rightarrow> 0 \<le> p"
    and "\<forall>g\<in>set gs. 0 \<le> amount g"
    and "\<forall>i. networkNonneg (net i)" and "cacheNonneg this"
  shows "rsuCapitalGains v = 0
       \<and> rsuTotalTax v = 35 / 100 * v
       \<and> postTaxValue (fst (valueRSUs js net this gs))
           = 65 / 100 * currentValue (fst (valueRSUs js net this gs))"
proof -
  have "\<forall>g\<in>set (filter (\<lambda>g. grant_type g = RSU) gs). 0 \<le> amount g"
    using assms(2) by simp
  from valueRSUs_loop_post_tax [OF assms(3,4) this, of js 0 emptyRunning]
  have "postTaxValue (fst (valueRSUs js net this gs))
           = 65 / 100 * currentValue (fst (valueRSUs js net this gs))"
    by (cases "valueRSUs_loop js net 0 (filter (\<lambda>g. grant_type g = RSU) gs) emptyRunning this")
       (simp add: valueRSUs_def emptyRunning_def)
  then show ?thesis
    by (simp add: rsuCapitalGains_zero rsuTotalTax_flat)
qed


lemma offline_rate:
  "getCurrentExchangeRate offline initialConverter
     = (\<lparr>rate = 37 / 10, lastUpdated = 1704067200000, source = ''fallback''\<rparr>, initialConverter)"
  by (simp add: getCurrentExchangeRate_def getCurrentExchangeRate_try_def offline_def
      initialConverter_def FALLBACK_EXCHANGE_RATE_usdToIls_def
      FALLBACK_EXCHANGE_RATE_lastUpdated_def FALLBACK_EXCHANGE_RATE_source_def)

lemma offline_convert: "convertUSDToILS offline initialConverter x = (x * (37 / 10), initialConverter)"
  by (simp add: convertUSDToILS_def offline_rate)

theorem valueRSUs_post_tax_witness:
  "rsuCapitalGains 1000 = 0
   \<and> rsuTotalTax 1000 = 350
   \<and> currentValue (fst (valueRSUs exampleRuntime (\<lambda>i. offline) initialConverter [exampleGrant])) = 177600
   \<and> postTaxValue (fst (valueRSUs exampleRuntime (\<lambda>i. offline) initialConverter [exampleGrant])) = 115440"
proof -
  have cur: "currentValue (fst (valueRSUs exampleRuntime (\<lambda>i. offline) initialConverter [exampleGrant])) = 177600"
    by (simp add: valueRSUs_def exampleGrant_def emptyRunning_def Let_def orElse_def offline_convert)
  from valueRSUs_post_tax [of "[exampleGrant]" "\<lambda>i. offline" initialConverter 1000 exampleRuntime]
  show ?thesis
    by (simp add: cur) (simp add: exampleGrant_def networkNonneg_def fetchedNonneg_def offline_def
        cacheNonneg_def initialConverter_def)
qed

text \<open>
  With only the prices non-negative the last part fails: a grant of minus ten units at
  one dollar, converted at the fallback rate, has the current value -37 and, since the
  post-tax value of a grant is floored at 0, the post-tax value 0.
\<close>

theorem valueRSUs_post_tax_counterexample:
  "currentValue (fst (valueRSUs exampleRuntime (\<lambda>i. offline) initialConverter [negativeGrant])) = - 37
   \<and> postTaxValue (fst (valueRSUs exampleRuntime (\<lambda>i. offline) initialConverter [negativeGrant])) = 0
   \<and> postTaxValue (fst (valueRSUs exampleRuntime (\<lambda>i. offline) initialConverter [negativeGrant]))
       \<noteq> 65 / 100 * currentValue (fst (valueRSUs exampleRuntime (\<lambda>i. offline) initialConverter [negativeGrant]))"
  by (simp add: valueRSUs_def negativeGrant_def exampleGrant_def emptyRunning_def Let_def orElse_def
      offline_convert rsuTotalTax_flat)

lemma applyRiskDiscount_firstCompanyStage:
  "applyRiskDiscount v (firstCompanyStage gs) =
     v * (case gs of
            [] \<Rightarrow> 1
          | g # _ \<Rightarrow>
              (case companyStage g of
                 None \<Rightarrow> 1
               | Some Startup \<Rightarrow> 3 / 10
               | Some Growth \<Rightarrow> 6 / 10
               | Some PreIpo \<Rightarrow> 8 / 10
               | Some Public \<Rightarrow> 1))"
  by (simp add: applyRiskDiscount_def firstCompanyStage_def discountFactors_def orElse_def
      split: list.splits option.splits CompanyStage.splits)

lemma calculateVestingSchedule_stage:
  "calculateVestingSchedule js (h\<lparr>companyStage := s\<rparr>) = calculateVestingSchedule js h"
  by (simp add: calculateVestingSchedule_def Let_def split: option.splits)

lemma filter_stage:
  "filter (\<lambda>g. P (grant_type g)) (map (\<lambda>h. h\<lparr>companyStage := f h\<rparr>) gs)
     = map (\<lambda>h. h\<lparr>companyStage := f h\<rparr>) (filter (\<lambda>g. P (grant_type g)) gs)"
  by (induction gs) simp_all

lemma valueRSUs_loop_stage:
  "valueRSUs_loop js net i (map (\<lambda>h. h\<lparr>companyStage := f h\<rparr>) gs) run this
     = valueRSUs_loop js net i gs run this"
  by (induction gs arbitrary: i run this) (simp_all add: Let_def calculateVestingSchedule_stage)

lemma valueStockOptions_loop_stage:
  "valueStockOptions_loop js net i (map (\<lambda>h. h\<lparr>companyStage := f h\<rparr>) gs) run this
     = valueStockOptions_loop js net i gs run this"
  by (induction gs arbitrary: i run this) (simp_all add: Let_def calculateVestingSchedule_stage)

lemma valueRSUs_loop_Cons_stage:
  "valueRSUs_loop js net i (g # map (\<lambda>h. h\<lparr>companyStage := f h\<rparr>) gs) run this
     = valueRSUs_loop js net i (g # gs) run this"
  by (simp add: Let_def valueRSUs_loop_stage)

lemma valueStockOptions_loop_Cons_stage:
  "valueStockOptions_loop js net i (g # map (\<lambda>h. h\<lparr>companyStage := f h\<rparr>) gs) run this
     = valueStockOptions_loop js net i (g # gs) run this"
  by (simp add: Let_def valueStockOptions_loop_stage)

text \<open>
  Claim C10. In \<open>valueRSUs\<close> and in \<open>valueStockOptions\<close> the risk-adjusted value of the
  group is the group's total current value times the one discount factor of the company
  stage of the first grant of the list (startup 0.3, growth 0.6, pre-ipo 0.8, public 1;
  public when the list is empty or the first grant names no stage). The company stages of
  the other grants have no effect: replacing them by any others leaves the whole
  valuation as it is.
\<close>

theorem risk_adjustment_by_first_stage:
  "riskAdjustedValue (fst (valueRSUs js net this gs))
     = currentValue (fst (valueRSUs js net this gs))
       * (case gs of
            [] \<Rightarrow> 1
          | g # _ \<Rightarrow>
              (case companyStage g of
                 None \<Rightarrow> 1
               | Some Startup \<Rightarrow> 3 / 10
               | Some Growth \<Rightarrow> 6 / 10
               | Some PreIpo \<Rightarrow> 8 / 10
               | Some Public \<Rightarrow> 1))
   \<and> riskAdjustedValue (fst (valueStockOptions js net this gs))
     = currentValue (fst (valueStockOptions js net this gs))
       * (case gs of
            [] \<Rightarrow> 1
          | g # _ \<Rightarrow>
              (case companyStage g of
                 None \<Rightarrow> 1
               | Some Startup \<Rightarrow> 3 / 10
               | Some Growth \<Rightarrow> 6 / 10
               | Some PreIpo \<Rightarrow> 8 / 10
               | Some Public \<Rightarrow> 1))
   \<and> valueRSUs js net this (first # map (\<lambda>h. h\<lparr>companyStage := f h\<rparr>) others)
     = valueRSUs js net this (first # others)
   \<and> valueStockOptions js net this (first # map (\<lambda>h. h\<lparr>companyStage := f h\<rparr>) others)
     = valueStockOptions js net this (first # others)"
proof (intro conjI)
  show "riskAdjustedValue (fst (valueRSUs js net this gs))
     = currentValue (fst (valueRSUs js net this gs))
       * (case gs of
            [] \<Rightarrow> 1
          | g # _ \<Rightarrow>
              (case companyStage g of
                 None \<Rightarrow> 1
               | Some Startup \<Rightarrow> 3 / 10
               | Some Growth \<Rightarrow> 6 / 10
               | Some PreIpo \<Rightarrow> 8 / 10
               | Some Public \<Rightarrow> 1))"
    by (cases "valueRSUs_loop js net 0 (filter (\<lambda>g. grant_type g = RSU) gs) emptyRunning this")
       (simp add: valueRSUs_def applyRiskDiscount_firstCompanyStage)
  show "riskAdjustedValue (fst (valueStockOptions js net this gs))
     = currentValue (fst (valueStockOptions js net this gs))
       * (case gs of
            [] \<Rightarrow> 1
          | g # _ \<Rightarrow>
              (case companyStage g of
                 None \<Rightarrow> 1
               | Some Startup \<Rightarrow> 3 / 10
               | Some Growth \<Rightarrow> 6 / 10
               | Some PreIpo \<Rightarrow> 8 / 10
               | Some Public \<Rightarrow> 1))"
    by (cases "valueStockOptions_loop js net 0
                 (filter (\<lambda>g. grant_type g = ISO \<or> grant_type g = NQSO) gs) emptyRunning this")
       (simp add: valueStockOptions_def applyRiskDiscount_firstCompanyStage)
  have same_first: "firstCompanyStage (first # map (\<lambda>h. h\<lparr>companyStage := f h\<rparr>) others)
      = firstCompanyStage (first # others)"
    by (simp add: firstCompanyStage_def)
  have rsu: "valueRSUs_loop js net 0
        (filter (\<lambda>g. grant_type g = RSU) (first # map (\<lambda>h. h\<lparr>companyStage := f h\<rparr>) others)) r t
      = valueRSUs_loop js net 0 (filter (\<lambda>g. grant_type g = RSU) (first # others)) r t" for r t
    using filter_stage [of "\<lambda>t. t = RSU" f others]
    by (cases "grant_type first = RSU")
       (simp_all add: valueRSUs_loop_stage valueRSUs_loop_Cons_stage del: valueRSUs_loop.simps)
  have opt: "valueStockOptions_loop js net 0
        (filter (\<lambda>g. grant_type g = ISO \<or> grant_type g = NQSO)
           (first # map (\<lambda>h. h\<lparr>companyStage := f h\<rparr>) others)) r t
      = valueStockOptions_loop js net 0
          (filter (\<lambda>g. grant_type g = ISO \<or> grant_type g = NQSO) (first # others)) r t" for r t
    using filter_stage [of "\<lambda>t. t = ISO \<or> t = NQSO" f others]
    by (cases "grant_type first = ISO \<or> grant_type first = NQSO")
       (simp_all add: valueStockOptions_loop_stage valueStockOptions_loop_Cons_stage
          del: valueStockOptions_loop.simps)
  show "valueRSUs js net this (first # map (\<lambda>h. h\<lparr>companyStage := f h\<rparr>) others)
     = valueRSUs js net this (first # others)"
    by (simp only: valueRSUs_def rsu same_first)
  show "valueStockOptions js net this (first # map (\<lambda>h. h\<lparr>companyStage := f h\<rparr>) others)
     = valueStockOptions js net this (first # others)"
    by (simp only: valueStockOptions_def opt same_first)
qed

lemma valueESPP_loop_cached:
  assumes "cachedRate this = Some r" and "\<forall>i. dateNow (net i) < cacheExpiry this"
  shows "valueESPP_loop js net i gs run this
       = (fst (valueESPP_loop js net i gs run this), this)
       \<and> totalCurrentValue (fst (valueESPP_loop js net i gs run this))
         = totalCurrentValue run
           + (\<Sum>g\<leftarrow>gs. if 0 < esppDiscount g then esppGrantValue g * rate r else 0)"
proof (induction gs arbitrary: i run)
  case Nil
  show ?case by simp
next
  case (Cons g rest)
  have conv: "convertUSDToILS (net i) this x = (x * rate r, this)" for x
    using assms by (simp add: convertUSDToILS_def getCurrentExchangeRate_cached)
  show ?case
    using Cons.IH by (simp add: Let_def conv)
qed

text \<open>
  Claim C7. For every list of grants, \<open>valueESPP\<close> returns an empty list of vesting
  events and a risk-adjusted value equal to the current value. The gross value of a grant
  is \<open>amount * (currentPrice - purchasePrice)\<close>, where the purchase price is the strike
  price when one is set (and is not 0) and 85% of the current price otherwise. With a
  valid cached rate, the current value is the sum over the ESPP grants of that gross
  value times the rate, a grant without a positive discount counting 0.
\<close>

theorem valueESPP_shape:
  "valuation_vestingSchedule (fst (valueESPP js net this gs)) = []
   \<and> riskAdjustedValue (fst (valueESPP js net this gs)) = currentValue (fst (valueESPP js net this gs))
   \<and> esppGrantValue g = amount g * (orElse (currentStockPrice g) 0 - esppPurchasePrice g)
   \<and> esppPurchasePrice g =
       (case strikePrice g of
          None \<Rightarrow> 85 / 100 * orElse (currentStockPrice g) 0
        | Some s \<Rightarrow> if s = 0 then 85 / 100 * orElse (currentStockPrice g) 0 else s)
   \<and> (cachedRate this = Some r \<and> (\<forall>i. dateNow (net i) < cacheExpiry this) \<longrightarrow>
        currentValue (fst (valueESPP js net this gs))
          = (\<Sum>g\<leftarrow>filter (\<lambda>g. grant_type g = ESPP) gs.
               if 0 < esppDiscount g then esppGrantValue g * rate r else 0))"
proof (intro conjI impI)
  show "valuation_vestingSchedule (fst (valueESPP js net this gs)) = []"
    by (cases "valueESPP_loop js net 0 (filter (\<lambda>g. grant_type g = ESPP) gs) emptyRunning this")
       (simp add: valueESPP_def)
  show "riskAdjustedValue (fst (valueESPP js net this gs)) = currentValue (fst (valueESPP js net this gs))"
    by (cases "valueESPP_loop js net 0 (filter (\<lambda>g. grant_type g = ESPP) gs) emptyRunning this")
       (simp add: valueESPP_def)
  show "esppGrantValue g = amount g * (orElse (currentStockPrice g) 0 - esppPurchasePrice g)"
    by (simp add: esppGrantValue_def esppDiscount_def)
  show "esppPurchasePrice g =
       (case strikePrice g of
          None \<Rightarrow> 85 / 100 * orElse (currentStockPrice g) 0
        | Some s \<Rightarrow> if s = 0 then 85 / 100 * orElse (currentStockPrice g) 0 else s)"
    by (simp add: esppPurchasePrice_def orElse_def split: option.splits)
next
  assume "cachedRate this = Some r \<and> (\<forall>i. dateNow (net i) < cacheExpiry this)"
  then have "totalCurrentValue
               (fst (valueESPP_loop js net 0 (filter (\<lambda>g. grant_type g = ESPP) gs) emptyRunning this))
           = totalCurrentValue emptyRunning
             + (\<Sum>g\<leftarrow>filter (\<lambda>g. grant_type g = ESPP) gs.
                  if 0 < esppDiscount g then esppGrantValue g * rate r else 0)"
    using valueESPP_loop_cached [of this r net js 0 _ emptyRunning] by blast
  then show "currentValue (fst (valueESPP js net this gs))
          = (\<Sum>g\<leftarrow>filter (\<lambda>g. grant_type g = ESPP) gs.
               if 0 < esppDiscount g then esppGrantValue g * rate r else 0)"
    by (cases "valueESPP_loop js net 0 (filter (\<lambda>g. grant_type g = ESPP) gs) emptyRunning this")
       (simp add: valueESPP_def emptyRunning_def)
qed

theorem valueESPP_shape_witness:
  "valuation_vestingSchedule (fst (valueESPP exampleRuntime (\<lambda>i. offline) cachedConverter [esppGrant])) = []
   \<and> riskAdjustedValue (fst (valueESPP exampleRuntime (\<lambda>i. offline) cachedConverter [esppGrant])) = 5550
   \<and> currentValue (fst (valueESPP exampleRuntime (\<lambda>i. offline) cachedConverter [esppGrant])) = 5550
   \<and> esppPurchasePrice esppGrant = 85
   \<and> esppGrantValue esppGrant = 1500"
  using valueESPP_shape [of exampleRuntime "\<lambda>i. offline" cachedConverter "[esppGrant]" esppGrant
      "\<lparr>rate = 37 / 10, lastUpdated = 0, source = ''exchangerate-api.com''\<rparr>"]
  by (simp add: esppGrant_def exampleGrant_def cachedConverter_def offline_def orElse_def
      esppDiscount_def)

section \<open>Properties of the input validation\<close>

text \<open>An option grant passes the strike-price check only with a strike price above 0.\<close>

lemma strikePriceErrors_empty_iff:
  "strikePriceErrors g = [] \<longleftrightarrow>
     (grant_type g \<noteq> ISO \<and> grant_type g \<noteq> NQSO) \<or> (\<exists>s. strikePrice g = Some s \<and> 0 < s)"
  by (auto simp: strikePriceErrors_def truthy_def optLess_def split: option.splits)

text \<open>
  Claim C3 says that an option grant with a strike price of exactly 0 gets no strike-price
  error. The code gives it one: \<^verbatim>\<open>!grant.strikePrice\<close> is true of 0, although the
  comparison beside it, \<^verbatim>\<open>grant.strikePrice < 0\<close>, lets 0 through, and 0 is the strike
  price that the input form gives a new option grant.
\<close>

theorem validateInputs_rejects_zero_strike:
  "strikePrice (createNewGrant 0 ISO) = Some 0
   \<and> errors (validateInputs optionPackage) = [''Strike price is required for stock options'']
   \<and> \<not> isValid (validateInputs optionPackage)"
  by (simp add: validateInputs_def optionPackage_def defaultPackage_def createNewGrant_def
      grantErrors_def strikePriceErrors_def truthy_def optLess_def Let_def)

end
